theory Spec2Isabelle
  imports Complex_Main "HOL-Library.AList"
begin

section \<open>The document store used by both components\<close>

text \<open>
  Both stores talk to a MongoDB database through four collection operations:
  \<open>insert_one\<close>, \<open>find_one\<close>, \<open>delete_many\<close> and \<open>create_index\<close>. The driver is not part
  of the repository; the definitions of this section give the contract the two source
  files rely on. A document is a Python dict, kept as an association list in insertion
  order. Timestamps are Python floats; they are modelled as reals, of which only the
  order and addition are used.
\<close>

datatype val = Null | Str string | Num real | Strs "string list"

type_synonym doc = "(string \<times> val) list"

text \<open>A query maps a field to a plain value (equality), to \<open>{"$ne": v}\<close> or to \<open>{"$gt": x}\<close>.\<close>

datatype cond = Eq val | Ne val | Gt real

type_synonym query = "(string \<times> cond) list"

datatype direction = ASCENDING | DESCENDING

type_synonym index = "(string \<times> direction) list"

record collection =
  docs :: "doc list"
  indexes :: "index list"

datatype error = TypeError | KeyError string

definition empty_collection :: collection where
  "empty_collection = \<lparr>docs = [], indexes = []\<rparr>"

text \<open>
  Modelled from the spec: the filter contract of the document store (section 6 of the
  specification). Equality with \<open>None\<close> matches a document where the field is unset or
  null; equality with any other value needs the field to hold that value.
\<close>

definition field_eq :: "val \<Rightarrow> val option \<Rightarrow> bool" where
  "field_eq v x = (case x of None \<Rightarrow> v = Null | Some w \<Rightarrow> w = v)"

fun holds :: "cond \<Rightarrow> val option \<Rightarrow> bool" where
  "holds (Eq v) x = field_eq v x"
| "holds (Ne v) x = (\<not> field_eq v x)"
| "holds (Gt a) x = (case x of Some (Num b) \<Rightarrow> a < b | _ \<Rightarrow> False)"

definition matches :: "query \<Rightarrow> doc \<Rightarrow> bool" where
  "matches q d = list_all (\<lambda>(k, c). holds c (map_of d k)) q"

text \<open>Modelled from the spec: \<open>insertOne\<close> appends one record.\<close>

definition insert_one :: "doc \<Rightarrow> collection \<Rightarrow> collection" where
  "insert_one d c = c\<lparr>docs := docs c @ [d]\<rparr>"

text \<open>Modelled from the spec: \<open>deleteMany\<close> deletes all matching records and returns their count.\<close>

definition delete_many :: "query \<Rightarrow> collection \<Rightarrow> nat \<times> collection" where
  "delete_many q c =
     (length (filter (matches q) (docs c)),
      c\<lparr>docs := filter (\<lambda>d. \<not> matches q d) (docs c)\<rparr>)"

text \<open>
  Modelled from the spec: \<open>createIndex\<close> is an idempotent index declaration; an index is
  identified by its key pattern. The \<open>background\<close> option only schedules the build and is
  not kept.
\<close>

definition create_index :: "index \<Rightarrow> collection \<Rightarrow> collection" where
  "create_index ix c = (if ix \<in> set (indexes c) then c else c\<lparr>indexes := indexes c @ [ix]\<rparr>)"

text \<open>
  Modelled from the spec: \<open>findOne\<close> with a descending sort returns the matching record
  whose sort field is greatest, without the fields the projection excludes. A record
  whose sort field is not a number ranks with those where it is unset, below every
  number. Among records with equal sort fields the first inserted one is taken.
\<close>

definition sort_key :: "string \<Rightarrow> doc \<Rightarrow> real option" where
  "sort_key f d = (case map_of d f of Some (Num x) \<Rightarrow> Some x | _ \<Rightarrow> None)"

fun key_less :: "real option \<Rightarrow> real option \<Rightarrow> bool" where
  "key_less None None = False"
| "key_less None (Some y) = True"
| "key_less (Some x) None = False"
| "key_less (Some x) (Some y) = (x < y)"

fun pick_desc :: "string \<Rightarrow> doc list \<Rightarrow> doc option" where
  "pick_desc f [] = None"
| "pick_desc f (d # ds) =
     (case pick_desc f ds of
        None \<Rightarrow> Some d
      | Some e \<Rightarrow> if key_less (sort_key f d) (sort_key f e) then Some e else Some d)"

definition project :: "string list \<Rightarrow> doc \<Rightarrow> doc" where
  "project excl d = filter (\<lambda>(k, v). k \<notin> set excl) d"

definition find_one :: "query \<Rightarrow> string list \<Rightarrow> string \<Rightarrow> collection \<Rightarrow> doc option" where
  "find_one q excl f c = map_option (project excl) (pick_desc f (filter (matches q) (docs c)))"


section \<open>The OAuth state store (state\_store/mongodb.py)\<close>

record MongoDBAsyncOAuthStateStore =
  slack_oauth_states_collection :: collection
  expiration_seconds :: int

text \<open>
  \<open>__init__\<close> stores the collection handle and \<open>expiration_seconds\<close> as given. Its body
  has no \<open>raise\<close>; the result type still has an error side, as every Python call has.
\<close>

definition new_state_store :: "collection \<Rightarrow> int \<Rightarrow> error + MongoDBAsyncOAuthStateStore" where
  "new_state_store coll secs =
     Inr \<lparr>slack_oauth_states_collection = coll, expiration_seconds = secs\<rparr>"

definition state_init :: "MongoDBAsyncOAuthStateStore \<Rightarrow> error + MongoDBAsyncOAuthStateStore" where
  "state_init self =
     Inr (self\<lparr>slack_oauth_states_collection :=
            create_index [(''state'', ASCENDING)] (slack_oauth_states_collection self)\<rparr>)"

text \<open>
  \<open>issue\<close> draws \<open>str(uuid4())\<close> and reads \<open>time()\<close>; both are inputs of the model
  (\<open>state\<close> and \<open>now\<close>). It returns the token and the updated store.
\<close>

definition issue :: "MongoDBAsyncOAuthStateStore \<Rightarrow> string \<Rightarrow> real
    \<Rightarrow> string \<times> MongoDBAsyncOAuthStateStore" where
  "issue self state now =
     (state,
      self\<lparr>slack_oauth_states_collection :=
        insert_one [(''state'', Str state),
                    (''expire_at'', Num (now + real_of_int (expiration_seconds self)))]
          (slack_oauth_states_collection self)\<rparr>)"

text \<open>\<open>consume\<close> reads \<open>time()\<close> (the input \<open>now\<close>) and issues one \<open>delete_many\<close>.\<close>

definition consume :: "MongoDBAsyncOAuthStateStore \<Rightarrow> string \<Rightarrow> real
    \<Rightarrow> bool \<times> MongoDBAsyncOAuthStateStore" where
  "consume self state now =
     (let (deleted_count, coll) =
            delete_many [(''state'', Eq (Str state)), (''expire_at'', Gt now)]
              (slack_oauth_states_collection self)
      in (deleted_count > 0, self\<lparr>slack_oauth_states_collection := coll\<rparr>))"

definition async_issue :: "MongoDBAsyncOAuthStateStore \<Rightarrow> string \<Rightarrow> real
    \<Rightarrow> string \<times> MongoDBAsyncOAuthStateStore" where
  "async_issue self state now = issue self state now"

definition async_consume :: "MongoDBAsyncOAuthStateStore \<Rightarrow> string \<Rightarrow> real
    \<Rightarrow> bool \<times> MongoDBAsyncOAuthStateStore" where
  "async_consume self state now = consume self state now"

text \<open>
  A record of the state collection is valid for token \<open>s\<close> at time \<open>now\<close> when its
  \<open>state\<close> is \<open>s\<close> and its \<open>expire_at\<close> is a number greater than \<open>now\<close>.
\<close>

definition valid_for :: "string \<Rightarrow> real \<Rightarrow> doc \<Rightarrow> bool" where
  "valid_for s now d =
     (map_of d ''state'' = Some (Str s) \<and> (\<exists>x. map_of d ''expire_at'' = Some (Num x) \<and> now < x))"

text \<open>A sequence of operations on the state store, each with the values it reads.\<close>

datatype state_op = Issue string real | Consume string real

fun step :: "MongoDBAsyncOAuthStateStore \<Rightarrow> state_op \<Rightarrow> MongoDBAsyncOAuthStateStore" where
  "step self (Issue s now) = snd (issue self s now)"
| "step self (Consume s now) = snd (consume self s now)"

definition run :: "state_op list \<Rightarrow> MongoDBAsyncOAuthStateStore \<Rightarrow> MongoDBAsyncOAuthStateStore" where
  "run ops self = foldl step self ops"

fun issued :: "state_op list \<Rightarrow> string list" where
  "issued [] = []"
| "issued (Issue s now # ops) = s # issued ops"
| "issued (Consume s now # ops) = issued ops"

definition has_token :: "string \<Rightarrow> MongoDBAsyncOAuthStateStore \<Rightarrow> bool" where
  "has_token s self =
     (\<exists>d \<in> set (docs (slack_oauth_states_collection self)). map_of d ''state'' = Some (Str s))"

text \<open>The \<open>state\<close> fields of the records of the collection, in order.\<close>

definition states :: "MongoDBAsyncOAuthStateStore \<Rightarrow> val option list" where
  "states self = map (\<lambda>d. map_of d ''state'') (docs (slack_oauth_states_collection self))"


section \<open>The installation store (installation\_store/mongodb.py)\<close>

text \<open>
  Modelled from the spec: \<open>Bot\<close> and \<open>Installation\<close> are classes of slack\_sdk, which is
  not part of the repository. They carry the fields of section 3 of the specification:
  a Bot has the identity fields without \<open>user_id\<close>, the six bot-credential fields and
  \<open>installed_at\<close>; an Installation has the same fields and \<open>user_id\<close>. Further attributes
  of the two classes are copied to and from the documents unchanged and play no part in
  any query; they are left out.
\<close>

record Bot =
  enterprise_id :: "string option"
  team_id :: "string option"
  bot_token :: "string option"
  bot_id :: "string option"
  bot_user_id :: "string option"
  bot_scopes :: "string list option"
  bot_refresh_token :: "string option"
  bot_token_expires_at :: "int option"
  installed_at :: real

record Installation = Bot +
  user_id :: "string option"

text \<open>
  Modelled from the spec: \<open>Installation.to_bot\<close> of slack\_sdk keeps the fields an
  Installation shares with a Bot.
\<close>

definition to_bot :: "Installation \<Rightarrow> Bot" where
  "to_bot i =
     \<lparr>enterprise_id = enterprise_id i, team_id = team_id i, bot_token = bot_token i,
      bot_id = bot_id i, bot_user_id = bot_user_id i, bot_scopes = bot_scopes i,
      bot_refresh_token = bot_refresh_token i,
      bot_token_expires_at = bot_token_expires_at i, installed_at = installed_at i\<rparr>"

definition ostr :: "string option \<Rightarrow> val" where
  "ostr x = (case x of None \<Rightarrow> Null | Some s \<Rightarrow> Str s)"

definition ostrs :: "string list option \<Rightarrow> val" where
  "ostrs x = (case x of None \<Rightarrow> Null | Some l \<Rightarrow> Strs l)"

definition oint :: "int option \<Rightarrow> val" where
  "oint x = (case x of None \<Rightarrow> Null | Some n \<Rightarrow> Num (real_of_int n))"

text \<open>
  \<open>asdict(BotDocument.from_bot(bot))\<close>: \<open>from_bot\<close> reads the dataclass fields of Bot, and
  no other attribute, from its argument.
\<close>

definition bot_document :: "'a Bot_scheme \<Rightarrow> doc" where
  "bot_document b =
     [(''enterprise_id'', ostr (enterprise_id b)),
      (''team_id'', ostr (team_id b)),
      (''bot_token'', ostr (bot_token b)),
      (''bot_id'', ostr (bot_id b)),
      (''bot_user_id'', ostr (bot_user_id b)),
      (''bot_scopes'', ostrs (bot_scopes b)),
      (''bot_refresh_token'', ostr (bot_refresh_token b)),
      (''bot_token_expires_at'', oint (bot_token_expires_at b)),
      (''installed_at'', Num (installed_at b))]"

text \<open>\<open>asdict(InstallationDocument.from_installation(installation))\<close>.\<close>

definition installation_document :: "Installation \<Rightarrow> doc" where
  "installation_document i = bot_document i @ [(''user_id'', ostr (user_id i))]"

text \<open>
  The store object. \<open>__init__\<close> takes the two collections out of the database by their
  names; the names are taken to differ, as the default ones do, so that the two handles
  are two collections.
\<close>

record MongoDBInstallationStore =
  slack_installations_collection :: collection
  slack_bots_collection :: collection
  client_id :: string

definition new_installation_store :: "collection \<Rightarrow> collection \<Rightarrow> string \<Rightarrow> MongoDBInstallationStore" where
  "new_installation_store installations bots cid =
     \<lparr>slack_installations_collection = installations, slack_bots_collection = bots,
      client_id = cid\<rparr>"

definition init :: "MongoDBInstallationStore \<Rightarrow> MongoDBInstallationStore" where
  "init self =
     self\<lparr>slack_installations_collection :=
       create_index
         [(''client_id'', ASCENDING), (''enterprise_id'', ASCENDING), (''team_id'', ASCENDING),
          (''installed_at'', ASCENDING)]
         (create_index
            [(''client_id'', ASCENDING), (''enterprise_id'', ASCENDING), (''team_id'', ASCENDING),
             (''user_id'', ASCENDING), (''installed_at'', ASCENDING)]
            (slack_installations_collection self))\<rparr>"

definition save_bot :: "MongoDBInstallationStore \<Rightarrow> 'a Bot_scheme \<Rightarrow> MongoDBInstallationStore" where
  "save_bot self a_bot =
     self\<lparr>slack_bots_collection :=
       insert_one ((''client_id'', Str (client_id self)) # bot_document a_bot)
         (slack_bots_collection self)\<rparr>"

definition save :: "MongoDBInstallationStore \<Rightarrow> Installation \<Rightarrow> MongoDBInstallationStore" where
  "save self installation =
     save_bot
       (self\<lparr>slack_installations_collection :=
          insert_one ((''client_id'', Str (client_id self)) # installation_document installation)
            (slack_installations_collection self)\<rparr>)
       (to_bot installation)"

text \<open>\<open>is_enterprise_install\<close> is an \<open>Optional[bool]\<close> used as a condition.\<close>

definition truthy :: "bool option \<Rightarrow> bool" where
  "truthy b = (b = Some True)"

text \<open>\<open>None if team_id is None or is_enterprise_install else team_id\<close>\<close>

definition team_filter :: "string option \<Rightarrow> bool option \<Rightarrow> val" where
  "team_filter team is_enterprise_install =
     (if team = None \<or> truthy is_enterprise_install then Null else ostr team)"

text \<open>
  \<open>find_bot\<close> and \<open>find_installation\<close> return the object built from the document found
  (\<open>BotDocument(**doc)\<close>, \<open>InstallationDocument(**doc)\<close>); the model returns the document,
  that is the keyword arguments of that object.
\<close>

definition find_bot :: "MongoDBInstallationStore \<Rightarrow> string option \<Rightarrow> string option \<Rightarrow> bool option
    \<Rightarrow> doc option" where
  "find_bot self enterprise team is_enterprise_install =
     find_one
       [(''client_id'', Eq (Str (client_id self))),
        (''enterprise_id'', Eq (ostr enterprise)),
        (''team_id'', Eq (team_filter team is_enterprise_install))]
       [''_id'', ''client_id''] ''installed_at'' (slack_bots_collection self)"

definition bot_credential_fields :: "string list" where
  "bot_credential_fields =
     [''bot_token'', ''bot_id'', ''bot_user_id'', ''bot_scopes'', ''bot_refresh_token'',
      ''bot_token_expires_at'']"

text \<open>\<open>{field: d[field] for field in fields}\<close>: a missing key raises \<open>KeyError\<close>.\<close>

fun getitems :: "doc \<Rightarrow> string list \<Rightarrow> error + doc" where
  "getitems d [] = Inr []"
| "getitems d (f # fs) =
     (case map_of d f of
        None \<Rightarrow> Inl (KeyError f)
      | Some v \<Rightarrow> (case getitems d fs of Inl e \<Rightarrow> Inl e | Inr r \<Rightarrow> Inr ((f, v) # r)))"

text \<open>\<open>d.update(other)\<close>: each key of \<open>other\<close> is set in turn.\<close>

definition dict_update :: "doc \<Rightarrow> doc \<Rightarrow> doc" where
  "dict_update d other = fold (\<lambda>(k, v). AList.update k v) other d"

definition find_installation :: "MongoDBInstallationStore \<Rightarrow> string option \<Rightarrow> string option
    \<Rightarrow> string option \<Rightarrow> bool option \<Rightarrow> error + doc option" where
  "find_installation self enterprise team user is_enterprise_install =
     (let query =
            [(''client_id'', Eq (Str (client_id self))),
             (''enterprise_id'', Eq (ostr enterprise)),
             (''team_id'', Eq (team_filter team is_enterprise_install))]
            @ (case user of None \<Rightarrow> [] | Some u \<Rightarrow> [(''user_id'', Eq (Str u))])
      in case find_one query [''_id'', ''client_id''] ''installed_at''
                (slack_installations_collection self) of
           None \<Rightarrow> Inr None
         | Some d \<Rightarrow>
             (case user of
                None \<Rightarrow> Inr (Some d)
              | Some u \<Rightarrow>
                  (case find_one (query @ [(''bot_token'', Ne Null)]) [''_id'', ''client_id'']
                          ''installed_at'' (slack_installations_collection self) of
                     None \<Rightarrow> Inr (Some d)
                   | Some latest_bot_token_doc \<Rightarrow>
                       (case getitems latest_bot_token_doc bot_credential_fields of
                          Inl e \<Rightarrow> Inl e
                        | Inr other \<Rightarrow> Inr (Some (dict_update d other))))))"

definition delete_bot :: "MongoDBInstallationStore \<Rightarrow> string option \<Rightarrow> string option
    \<Rightarrow> MongoDBInstallationStore" where
  "delete_bot self enterprise team =
     self\<lparr>slack_bots_collection :=
       snd (delete_many
              [(''client_id'', Eq (Str (client_id self))),
               (''enterprise_id'', Eq (ostr enterprise)),
               (''team_id'', Eq (ostr team))]
              (slack_bots_collection self))\<rparr>"

definition delete_installation :: "MongoDBInstallationStore \<Rightarrow> string option \<Rightarrow> string option
    \<Rightarrow> string option \<Rightarrow> MongoDBInstallationStore" where
  "delete_installation self enterprise team user =
     (let query =
            [(''client_id'', Eq (Str (client_id self))),
             (''enterprise_id'', Eq (ostr enterprise)),
             (''team_id'', Eq (ostr team))]
            @ (case user of None \<Rightarrow> [] | Some u \<Rightarrow> [(''user_id'', Eq (Str u))])
      in self\<lparr>slack_bots_collection := snd (delete_many query (slack_bots_collection self))\<rparr>)"

text \<open>
  \<open>find_bot\<close>, \<open>find_installation\<close>, \<open>delete_bot\<close> and \<open>delete_installation\<close> declare every
  parameter after \<open>self\<close> behind a bare \<open>*\<close>, so they take keyword arguments only. A call
  that passes \<open>n > 0\<close> positional arguments raises \<open>TypeError\<close> when the arguments are
  bound, before the body runs.
\<close>

definition bind_keyword_only :: "nat \<Rightarrow> error + unit" where
  "bind_keyword_only n_positional = (if n_positional > 0 then Inl TypeError else Inr ())"

definition async_save :: "MongoDBInstallationStore \<Rightarrow> Installation \<Rightarrow> MongoDBInstallationStore" where
  "async_save self installation = save self installation"

definition async_save_bot :: "MongoDBInstallationStore \<Rightarrow> 'a Bot_scheme \<Rightarrow> MongoDBInstallationStore" where
  "async_save_bot self a_bot = save_bot self a_bot"

text \<open>\<open>self.find_bot(enterprise_id, team_id, is_enterprise_install=is_enterprise_install)\<close>\<close>

definition async_find_bot :: "MongoDBInstallationStore \<Rightarrow> string option \<Rightarrow> string option
    \<Rightarrow> bool option \<Rightarrow> error + doc option" where
  "async_find_bot self enterprise team is_enterprise_install =
     (case bind_keyword_only 2 of
        Inl e \<Rightarrow> Inl e
      | Inr _ \<Rightarrow> Inr (find_bot self enterprise team is_enterprise_install))"

text \<open>\<open>self.find_installation(enterprise_id, team_id, user_id=user_id, is_enterprise_install=...)\<close>\<close>

definition async_find_installation :: "MongoDBInstallationStore \<Rightarrow> string option \<Rightarrow> string option
    \<Rightarrow> string option \<Rightarrow> bool option \<Rightarrow> error + doc option" where
  "async_find_installation self enterprise team user is_enterprise_install =
     (case bind_keyword_only 2 of
        Inl e \<Rightarrow> Inl e
      | Inr _ \<Rightarrow> find_installation self enterprise team user is_enterprise_install)"

text \<open>\<open>self.delete_bot(enterprise_id, team_id)\<close>\<close>

definition async_delete_bot :: "MongoDBInstallationStore \<Rightarrow> string option \<Rightarrow> string option
    \<Rightarrow> error + MongoDBInstallationStore" where
  "async_delete_bot self enterprise team =
     (case bind_keyword_only 2 of
        Inl e \<Rightarrow> Inl e
      | Inr _ \<Rightarrow> Inr (delete_bot self enterprise team))"

text \<open>\<open>self.delete_installation(enterprise_id, team_id, user_id=user_id)\<close>\<close>

definition async_delete_installation :: "MongoDBInstallationStore \<Rightarrow> string option \<Rightarrow> string option
    \<Rightarrow> string option \<Rightarrow> error + MongoDBInstallationStore" where
  "async_delete_installation self enterprise team user =
     (case bind_keyword_only 2 of
        Inl e \<Rightarrow> Inl e
      | Inr _ \<Rightarrow> Inr (delete_installation self enterprise team user))"

text \<open>
  The states of an installation store: it is built over two empty collections, which
  it alone writes, and then driven through its operations.
\<close>

inductive reachable :: "MongoDBInstallationStore \<Rightarrow> bool" where
  r_new: "reachable (new_installation_store empty_collection empty_collection cid)"
| r_init: "reachable self \<Longrightarrow> reachable (init self)"
| r_save: "reachable self \<Longrightarrow> reachable (save self installation)"
| r_save_bot: "reachable self \<Longrightarrow> reachable (save_bot self (a_bot :: Bot))"
| r_delete_bot: "reachable self \<Longrightarrow> reachable (delete_bot self enterprise team)"
| r_delete_installation:
    "reachable self \<Longrightarrow> reachable (delete_installation self enterprise team user)"

text \<open>A field is absent when it is unset or null.\<close>

definition absent :: "val option \<Rightarrow> bool" where
  "absent x = (x = None \<or> x = Some Null)"

text \<open>A field equals an optional identifier literally: absent for \<open>None\<close>, that string otherwise.\<close>

definition field_is :: "string option \<Rightarrow> val option \<Rightarrow> bool" where
  "field_is a x = (case a of None \<Rightarrow> absent x | Some s \<Rightarrow> x = Some (Str s))"



section \<open>Vocabulary of the statements\<close>

text \<open>The team a lookup asks for: none for an enterprise install or an absent \<open>teamId\<close>.\<close>

definition scope_team :: "string option \<Rightarrow> bool option \<Rightarrow> string option" where
  "scope_team team is_enterprise_install =
     (if team = None \<or> truthy is_enterprise_install then None else team)"

text \<open>An Installation or Bot is in the scope of a lookup.\<close>

definition in_scope :: "string option \<Rightarrow> string option \<Rightarrow> bool option \<Rightarrow> 'a Bot_scheme \<Rightarrow> bool" where
  "in_scope enterprise team is_enterprise_install b =
     (enterprise_id b = enterprise \<and> team_id b = scope_team team is_enterprise_install)"

text \<open>The first Installation with the six bot-credential fields of the second.\<close>

definition with_bot_credentials :: "Installation \<Rightarrow> Installation \<Rightarrow> Installation" where
  "with_bot_credentials i b =
     i\<lparr>bot_token := bot_token b, bot_id := bot_id b, bot_user_id := bot_user_id b,
       bot_scopes := bot_scopes b, bot_refresh_token := bot_refresh_token b,
       bot_token_expires_at := bot_token_expires_at b\<rparr>"

text \<open>The record \<open>save\<close> inserts for an Installation.\<close>

definition stored_installation :: "string \<Rightarrow> Installation \<Rightarrow> doc" where
  "stored_installation cid i = (''client_id'', Str cid) # installation_document i"

text \<open>A record of the bots collection has literally the scope of a \<open>delete_bot\<close> call.\<close>

definition bot_scope_literal :: "string \<Rightarrow> string option \<Rightarrow> string option \<Rightarrow> doc \<Rightarrow> bool" where
  "bot_scope_literal cid enterprise team d =
     (map_of d ''client_id'' = Some (Str cid)
      \<and> field_is enterprise (map_of d ''enterprise_id'')
      \<and> field_is team (map_of d ''team_id''))"

text \<open>The two key patterns \<open>init\<close> passes to \<open>create_index\<close>.\<close>

definition user_lookup_index :: index where
  "user_lookup_index =
     [(''client_id'', ASCENDING), (''enterprise_id'', ASCENDING), (''team_id'', ASCENDING),
      (''user_id'', ASCENDING), (''installed_at'', ASCENDING)]"

definition scope_lookup_index :: index where
  "scope_lookup_index =
     [(''client_id'', ASCENDING), (''enterprise_id'', ASCENDING), (''team_id'', ASCENDING),
      (''installed_at'', ASCENDING)]"

text \<open>
  Sample data. \<open>U1\<close> and \<open>U2\<close> are the installations of testable property 3 of the
  specification; \<open>U0\<close> is an earlier installation of the user of \<open>U1\<close>, \<open>ORG\<close> an
  org-wide installation and \<open>B1\<close> a workspace bot.
\<close>

definition U1 :: Installation where
  "U1 = \<lparr>enterprise_id = Some ''E1'', team_id = Some ''T1'', bot_token = None, bot_id = None,
          bot_user_id = None, bot_scopes = None, bot_refresh_token = None,
          bot_token_expires_at = None, installed_at = 1, user_id = Some ''u1''\<rparr>"

definition U2 :: Installation where
  "U2 = \<lparr>enterprise_id = Some ''E1'', team_id = Some ''T1'', bot_token = Some ''xoxb-2'',
          bot_id = Some ''B2'', bot_user_id = Some ''W2'', bot_scopes = Some [''chat:write''],
          bot_refresh_token = None, bot_token_expires_at = None, installed_at = 2,
          user_id = Some ''u2''\<rparr>"

definition U0 :: Installation where
  "U0 = \<lparr>enterprise_id = Some ''E1'', team_id = Some ''T1'', bot_token = Some ''xoxb-0'',
          bot_id = Some ''B0'', bot_user_id = Some ''W0'', bot_scopes = Some [''chat:write''],
          bot_refresh_token = None, bot_token_expires_at = None, installed_at = 0,
          user_id = Some ''u1''\<rparr>"

definition ORG :: Installation where
  "ORG = \<lparr>enterprise_id = Some ''E1'', team_id = None, bot_token = Some ''xoxb-org'',
           bot_id = Some ''B9'', bot_user_id = Some ''W9'', bot_scopes = Some [''chat:write''],
           bot_refresh_token = None, bot_token_expires_at = None, installed_at = 3,
           user_id = Some ''u3''\<rparr>"

definition B1 :: Bot where
  "B1 = \<lparr>enterprise_id = Some ''E1'', team_id = Some ''T1'', bot_token = Some ''xoxb-1'',
          bot_id = Some ''B1'', bot_user_id = Some ''W1'', bot_scopes = Some [''chat:write''],
          bot_refresh_token = None, bot_token_expires_at = None, installed_at = 1\<rparr>"

definition fresh_store :: MongoDBInstallationStore where
  "fresh_store = new_installation_store empty_collection empty_collection ''client''"


section \<open>Facts about the document store\<close>

lemma matches_valid_for:
  "matches [(''state'', Eq (Str s)), (''expire_at'', Gt now)] d = valid_for s now d"
  by (auto simp: matches_def valid_for_def field_eq_def split: option.splits val.splits)


section \<open>The state store: consumption\<close>

text \<open>
  C4. For every store state, token \<open>s\<close> and call time \<open>now\<close>: \<open>consume\<close> deletes exactly
  the records whose \<open>state\<close> is \<open>s\<close> and whose \<open>expire_at\<close> is greater than \<open>now\<close>, keeps all
  the others in order, and returns true iff at least one such record was there. So it
  returns false, and leaves the store as it is, when no record carries \<open>s\<close> (never
  issued, or already consumed) and when no record carrying \<open>s\<close> has an \<open>expire_at\<close>
  greater than \<open>now\<close>, even though such a record stays in the collection.
\<close>

theorem consume_deletes_valid:
  "docs (slack_oauth_states_collection (snd (consume self s now)))
     = filter (\<lambda>d. \<not> valid_for s now d) (docs (slack_oauth_states_collection self))
   \<and> fst (consume self s now)
     = (\<exists>d \<in> set (docs (slack_oauth_states_collection self)). valid_for s now d)
   \<and> ((\<forall>d \<in> set (docs (slack_oauth_states_collection self)).
          map_of d ''state'' = Some (Str s) \<longrightarrow>
          \<not> (\<exists>x. map_of d ''expire_at'' = Some (Num x) \<and> now < x))
        \<longrightarrow> \<not> fst (consume self s now)
            \<and> snd (consume self s now) = self)"
proof -
  let ?ds = "docs (slack_oauth_states_collection self)"
  have m: "matches [(''state'', Eq (Str s)), (''expire_at'', Gt now)] = valid_for s now"
    by (rule ext) (rule matches_valid_for)
  have a: "docs (slack_oauth_states_collection (snd (consume self s now)))
            = filter (\<lambda>d. \<not> valid_for s now d) ?ds"
    by (simp add: consume_def delete_many_def m)
  have b: "fst (consume self s now) = (\<exists>d \<in> set ?ds. valid_for s now d)"
    by (simp add: consume_def delete_many_def m filter_empty_conv)
  have c: "\<not> fst (consume self s now) \<and> snd (consume self s now) = self"
    if h: "\<forall>d \<in> set ?ds. map_of d ''state'' = Some (Str s) \<longrightarrow>
             \<not> (\<exists>x. map_of d ''expire_at'' = Some (Num x) \<and> now < x)"
  proof -
    have none: "\<forall>d \<in> set ?ds. \<not> valid_for s now d"
      using h by (fastforce simp: valid_for_def)
    then have "filter (\<lambda>d. \<not> valid_for s now d) ?ds = ?ds"
      by (simp add: filter_id_conv)
    then have "snd (consume self s now) = self"
      by (simp add: consume_def delete_many_def m)
    with none b show ?thesis by simp
  qed
  from a b c show ?thesis by blast
qed

theorem consume_deletes_valid_witness:
  "\<not> fst (consume \<lparr>slack_oauth_states_collection =
                      \<lparr>docs = [[(''state'', Str ''tok''), (''expire_at'', Num 5)]], indexes = []\<rparr>,
                    expiration_seconds = 3\<rparr> ''tok'' 10)
   \<and> snd (consume \<lparr>slack_oauth_states_collection =
                      \<lparr>docs = [[(''state'', Str ''tok''), (''expire_at'', Num 5)]], indexes = []\<rparr>,
                    expiration_seconds = 3\<rparr> ''tok'' 10)
       = \<lparr>slack_oauth_states_collection =
            \<lparr>docs = [[(''state'', Str ''tok''), (''expire_at'', Num 5)]], indexes = []\<rparr>,
          expiration_seconds = 3\<rparr>"
  using consume_deletes_valid
    [of "\<lparr>slack_oauth_states_collection =
           \<lparr>docs = [[(''state'', Str ''tok''), (''expire_at'', Num 5)]], indexes = []\<rparr>,
         expiration_seconds = 3\<rparr>" "''tok''" 10]
  by (simp add: valid_for_def)


section \<open>The state store: traces\<close>


lemma has_token_issue:
  "has_token s (snd (issue self s' now)) = (has_token s self \<or> s = s')"
  by (auto simp: has_token_def issue_def insert_one_def)

lemma has_token_consume:
  "has_token s (snd (consume self s' now)) \<Longrightarrow> has_token s self"
  by (auto simp: has_token_def consume_def delete_many_def)

lemma consume_true_has_token:
  "fst (consume self s now) \<Longrightarrow> has_token s self"
  by (auto simp: has_token_def consume_def delete_many_def matches_valid_for valid_for_def
      filter_empty_conv)

lemma run_Cons: "run (x # ops) self = run ops (step self x)"
  by (simp add: run_def)

lemma run_append: "run (xs @ ys) self = run ys (run xs self)"
  by (simp add: run_def)

lemma issued_append: "issued (xs @ ys) = issued xs @ issued ys"
  by (induction xs rule: issued.induct) simp_all

lemma run_keeps_absent:
  "\<not> has_token s self \<Longrightarrow> s \<notin> set (issued ops) \<Longrightarrow> \<not> has_token s (run ops self)"
proof (induction ops arbitrary: self)
  case Nil
  then show ?case by (simp add: run_def)
next
  case (Cons x ops)
  show ?case
  proof (cases x)
    case (Issue s' now)
    with Cons.prems have "\<not> has_token s (step self x)" "s \<notin> set (issued ops)"
      by (auto simp: has_token_issue)
    then show ?thesis using Cons.IH by (simp add: run_Cons)
  next
    case (Consume s' now)
    with Cons.prems have "\<not> has_token s (step self x)" "s \<notin> set (issued ops)"
      by (auto dest: has_token_consume)
    then show ?thesis using Cons.IH by (simp add: run_Cons)
  qed
qed

lemma run_token_issued:
  "has_token s (run ops self) \<Longrightarrow> has_token s self \<or> s \<in> set (issued ops)"
  using run_keeps_absent by blast


lemma has_token_states: "has_token s self = (Some (Str s) \<in> set (states self))"
  by (force simp: has_token_def states_def)

lemma states_issue: "states (snd (issue self s now)) = states self @ [Some (Str s)]"
  by (simp add: states_def issue_def insert_one_def)

lemma distinct_states_consume:
  "distinct (states self) \<Longrightarrow> distinct (states (snd (consume self s now)))"
  by (simp add: states_def consume_def delete_many_def distinct_map_filter)

lemma run_distinct:
  "distinct (states self) \<Longrightarrow> distinct (issued ops)
   \<Longrightarrow> \<forall>s \<in> set (issued ops). \<not> has_token s self
   \<Longrightarrow> distinct (states (run ops self))"
proof (induction ops arbitrary: self)
  case Nil
  then show ?case by (simp add: run_def)
next
  case (Cons x ops)
  show ?case
  proof (cases x)
    case (Issue s' now)
    with Cons.prems have "distinct (states (step self x))"
      by (simp add: states_issue has_token_states)
    moreover from Issue Cons.prems have "distinct (issued ops)" by simp
    moreover from Issue Cons.prems have "\<forall>s \<in> set (issued ops). \<not> has_token s (step self x)"
      by (auto simp: has_token_issue)
    ultimately show ?thesis using Cons.IH by (simp add: run_Cons)
  next
    case (Consume s' now)
    with Cons.prems have "distinct (states (step self x))"
      by (simp add: distinct_states_consume)
    moreover from Consume Cons.prems have "distinct (issued ops)" by simp
    moreover from Consume Cons.prems have "\<forall>s \<in> set (issued ops). \<not> has_token s (step self x)"
      by (auto dest: has_token_consume)
    ultimately show ?thesis using Cons.IH by (simp add: run_Cons)
  qed
qed

lemma consume_removes_token:
  assumes d: "distinct (states self)" and t: "fst (consume self s now)"
  shows "\<not> has_token s (snd (consume self s now))"
proof
  let ?ds = "docs (slack_oauth_states_collection self)"
  assume "has_token s (snd (consume self s now))"
  then obtain d' where d': "d' \<in> set ?ds" "\<not> valid_for s now d'" "map_of d' ''state'' = Some (Str s)"
    by (auto simp: has_token_def consume_def delete_many_def matches_valid_for)
  from t obtain d0 where d0: "d0 \<in> set ?ds" "valid_for s now d0"
    by (auto simp: consume_def delete_many_def matches_valid_for filter_empty_conv)
  from d have inj: "inj_on (\<lambda>d. map_of d ''state'') (set ?ds)"
    by (simp add: states_def distinct_map)
  from d0 have "map_of d0 ''state'' = Some (Str s)" by (simp add: valid_for_def)
  with d'(3) have "map_of d0 ''state'' = map_of d' ''state''" by simp
  with inj d0(1) d'(1) have "d0 = d'" by (simp add: inj_on_def)
  with d0 d' show False by simp
qed

section \<open>The state store: single use\<close>

text \<open>
  C5. In a sequence of \<open>issue\<close> and \<open>consume\<close> calls on a store that starts with an empty
  collection and whose issued tokens are pairwise distinct (what \<open>uuid4\<close> provides), once
  a \<open>consume\<close> of token \<open>s\<close> has returned true, every later \<open>consume\<close> of \<open>s\<close> returns
  false, whatever the times of the calls, so also before the expiry of \<open>s\<close>.
\<close>

theorem consume_once:
  assumes empty: "docs (slack_oauth_states_collection self) = []"
    and fresh: "distinct (issued (pre @ Consume s t1 # mid))"
    and first: "fst (consume (run pre self) s t1)"
  shows "\<not> fst (consume (run (pre @ Consume s t1 # mid) self) s t2)"
proof -
  from fresh have dp: "distinct (issued pre)" and dm: "distinct (issued mid)"
    and disj: "set (issued pre) \<inter> set (issued mid) = {}"
    by (simp_all add: issued_append)
  from empty have no: "\<not> has_token x self" for x by (simp add: has_token_def)
  from empty have "distinct (states self)" by (simp add: states_def)
  with dp no have d1: "distinct (states (run pre self))" by (simp add: run_distinct)
  from first have "has_token s (run pre self)" by (rule consume_true_has_token)
  with no have "s \<in> set (issued pre)" using run_token_issued by blast
  with disj have notin: "s \<notin> set (issued mid)" by blast
  from d1 first have "\<not> has_token s (snd (consume (run pre self) s t1))"
    by (rule consume_removes_token)
  with notin have "\<not> has_token s (run mid (snd (consume (run pre self) s t1)))"
    by (simp add: run_keeps_absent)
  then have "\<not> has_token s (run (pre @ Consume s t1 # mid) self)"
    by (simp add: run_append run_Cons)
  then show ?thesis using consume_true_has_token by blast
qed

theorem consume_once_witness:
  "fst (consume (run [Issue ''a'' 0] \<lparr>slack_oauth_states_collection = \<lparr>docs = [], indexes = []\<rparr>,
                    expiration_seconds = 60\<rparr>) ''a'' 1)
   \<and> \<not> fst (consume (run ([Issue ''a'' 0] @ Consume ''a'' 1 # [Issue ''b'' 2])
                \<lparr>slack_oauth_states_collection = \<lparr>docs = [], indexes = []\<rparr>,
                 expiration_seconds = 60\<rparr>) ''a'' 3)"
proof -
  let ?s = "\<lparr>slack_oauth_states_collection = \<lparr>docs = [], indexes = []\<rparr>,
             expiration_seconds = 60\<rparr>"
  have e: "docs (slack_oauth_states_collection ?s) = []" by simp
  have f: "distinct (issued ([Issue ''a'' 0] @ Consume ''a'' 1 # [Issue ''b'' 2]))" by simp
  have g: "fst (consume (run [Issue ''a'' 0] ?s) ''a'' 1)"
    by (simp add: run_def issue_def consume_def delete_many_def insert_one_def matches_def
        field_eq_def)
  from g consume_once [OF e f g, of 3] show ?thesis by simp
qed

section \<open>The state store: configuration\<close>

text \<open>
  C9 (as amended). The state store validates nothing: for every integer
  \<open>expiration_seconds\<close>, non-positive ones included, construction and \<open>init\<close> succeed and
  keep the value as given. With a non-positive value, a token issued at time \<open>now\<close>, and
  not in the collection before, is refused by \<open>consume\<close> at every time from \<open>now\<close> on.
\<close>

theorem no_validation:
  "\<exists>self. new_state_store coll secs = Inr self
      \<and> expiration_seconds self = secs
      \<and> (\<exists>self'. state_init self = Inr self' \<and> expiration_seconds self' = secs)
      \<and> (secs \<le> 0 \<and> \<not> has_token s self \<and> now \<le> now'
           \<longrightarrow> \<not> fst (consume (snd (issue self s now)) s now'))"
proof -
  let ?self = "\<lparr>slack_oauth_states_collection = coll, expiration_seconds = secs\<rparr>"
  have "\<not> fst (consume (snd (issue ?self s now)) s now')"
    if "secs \<le> 0" "\<not> has_token s ?self" "now \<le> now'"
  proof -
    from that(1) have "real_of_int secs \<le> 0" by simp
    with that(3) have "\<not> now' < now + real_of_int secs" by linarith
    with that(2) show ?thesis
      by (auto simp: consume_def delete_many_def issue_def insert_one_def matches_valid_for
          valid_for_def has_token_def filter_empty_conv)
  qed
  then show ?thesis
    by (simp add: new_state_store_def state_init_def)
qed

theorem no_validation_witness:
  "\<exists>self. new_state_store empty_collection (- 5) = Inr self
      \<and> expiration_seconds self = - 5
      \<and> (\<exists>self'. state_init self = Inr self' \<and> expiration_seconds self' = - 5)
      \<and> \<not> fst (consume (snd (issue self ''tok'' 100)) ''tok'' 101)"
  using no_validation [of empty_collection "- 5" "''tok''" 100 101]
  by (simp add: new_state_store_def has_token_def empty_collection_def)

text \<open>
  C9 as stated fails: with \<open>expiration_seconds = 0\<close> construction and \<open>init\<close> return a
  store, and the token it issues at time 100 is refused at time 100.
\<close>

theorem nonpositive_expiration_accepted:
  "new_state_store empty_collection 0
     = Inr \<lparr>slack_oauth_states_collection = empty_collection, expiration_seconds = 0\<rparr>
   \<and> state_init \<lparr>slack_oauth_states_collection = empty_collection, expiration_seconds = 0\<rparr>
     = Inr \<lparr>slack_oauth_states_collection =
              \<lparr>docs = [], indexes = [[(''state'', ASCENDING)]]\<rparr>,
            expiration_seconds = 0\<rparr>
   \<and> \<not> fst (consume
              (snd (issue \<lparr>slack_oauth_states_collection = empty_collection,
                           expiration_seconds = 0\<rparr> ''tok'' 100))
              ''tok'' 100)"
  by (simp add: new_state_store_def state_init_def create_index_def empty_collection_def
      issue_def consume_def delete_many_def insert_one_def matches_def)

section \<open>Facts about lookups\<close>

lemma key_less_irrefl [simp]: "\<not> key_less a a"
  by (cases a) simp_all

lemma key_less_asym: "key_less a b \<Longrightarrow> \<not> key_less b a"
  by (cases a; cases b) simp_all

lemma key_less_neg_trans: "\<not> key_less a b \<Longrightarrow> \<not> key_less b c \<Longrightarrow> \<not> key_less a c"
  by (cases a; cases b; cases c) simp_all

lemma pick_desc_None [simp]: "(pick_desc f xs = None) = (xs = [])"
  by (cases xs) (simp_all split: option.splits)

lemma pick_desc_mem: "pick_desc f xs = Some d \<Longrightarrow> d \<in> set xs"
  by (induction xs arbitrary: d) (auto split: option.splits if_splits)

lemma pick_desc_max:
  "pick_desc f xs = Some d \<Longrightarrow> x \<in> set xs \<Longrightarrow> \<not> key_less (sort_key f d) (sort_key f x)"
proof (induction xs arbitrary: d)
  case Nil
  then show ?case by simp
next
  case (Cons a as)
  show ?case
  proof (cases "pick_desc f as")
    case None
    with Cons.prems show ?thesis by simp
  next
    case (Some e)
    note IH = Cons.IH [OF Some]
    show ?thesis
    proof (cases "key_less (sort_key f a) (sort_key f e)")
      case True
      with Some Cons.prems(1) have "d = e" by simp
      with True Cons.prems(2) IH show ?thesis by (auto dest: key_less_asym)
    next
      case False
      with Some Cons.prems(1) have "d = a" by simp
      with False Cons.prems(2) IH show ?thesis by (auto dest: key_less_neg_trans)
    qed
  qed
qed

lemma find_one_None: "(find_one q ex f c = None) = (\<forall>d \<in> set (docs c). \<not> matches q d)"
  by (simp add: find_one_def filter_empty_conv)

lemma find_one_Some:
  assumes "find_one q ex f c = Some r"
  shows "\<exists>d \<in> set (docs c). matches q d \<and> r = project ex d
           \<and> (\<forall>d' \<in> set (docs c). matches q d' \<longrightarrow> \<not> key_less (sort_key f d) (sort_key f d'))"
proof -
  from assms obtain d where d: "pick_desc f (filter (matches q) (docs c)) = Some d" "r = project ex d"
    by (auto simp: find_one_def)
  from d(1) have "d \<in> set (filter (matches q) (docs c))" by (rule pick_desc_mem)
  moreover have "\<not> key_less (sort_key f d) (sort_key f d')" if "d' \<in> set (docs c)" "matches q d'" for d'
    using pick_desc_max [OF d(1), of d'] that by simp
  ultimately show ?thesis using d(2) by auto
qed

lemma map_of_project: "map_of (project ex d) k = (if k \<in> set ex then None else map_of d k)"
  by (induction d) (auto simp: project_def)

lemma getitems_update:
  "getitems b fs = Inr other \<Longrightarrow>
   map_of (dict_update d other) k = (if k \<in> set fs then map_of b k else map_of d k)"
proof (induction fs arbitrary: d other)
  case Nil
  then show ?case by (simp add: dict_update_def)
next
  case (Cons f fs)
  from Cons.prems obtain v r where v: "map_of b f = Some v" and r: "getitems b fs = Inr r"
    and o: "other = (f, v) # r"
    by (auto split: option.splits sum.splits)
  have "dict_update d other = dict_update (AList.update f v d) r"
    by (simp add: o dict_update_def)
  with Cons.IH [OF r, of "AList.update f v d"] v show ?case
    by (auto simp: update_conv')
qed

lemma ostr_inj [simp]: "(ostr a = ostr b) = (a = b)"
  by (cases a; cases b) (simp_all add: ostr_def)

lemma ostr_Null [simp]: "(ostr a = Null) = (a = None)" "(Null = ostr a) = (a = None)"
  by (cases a; simp add: ostr_def)+

lemma ostr_Str [simp]: "(ostr a = Str s) = (a = Some s)" "(Str s = ostr a) = (a = Some s)"
  by (cases a; auto simp add: ostr_def)+

lemma field_eq_ostr: "field_eq (ostr a) x = field_is a x"
  by (cases a; cases x) (auto simp: field_eq_def field_is_def absent_def ostr_def)

lemma field_eq_Str: "field_eq (Str s) x = (x = Some (Str s))"
  by (cases x) (auto simp: field_eq_def)

lemma team_filter_scope: "team_filter t ie = ostr (scope_team t ie)"
  by (simp add: team_filter_def scope_team_def ostr_def)

lemma matches_holds: "matches q d \<Longrightarrow> (k, c) \<in> set q \<Longrightarrow> holds c (map_of d k)"
  by (auto simp: matches_def list_all_iff)

lemma stored_matches_scope:
  "matches [(''client_id'', Eq (Str cid)), (''enterprise_id'', Eq (ostr e)),
            (''team_id'', Eq (team_filter t ie))] (stored_installation cid i)
   = in_scope e t ie i"
  by (auto simp: matches_def stored_installation_def installation_document_def bot_document_def
      field_eq_def team_filter_scope in_scope_def)

lemma stored_matches_user:
  "matches [(''client_id'', Eq (Str cid)), (''enterprise_id'', Eq (ostr e)),
            (''team_id'', Eq (team_filter t ie)), (''user_id'', Eq (Str u))] (stored_installation cid i)
   = (in_scope e t ie i \<and> user_id i = Some u)"
  by (auto simp: matches_def stored_installation_def installation_document_def bot_document_def
      field_eq_def team_filter_scope in_scope_def)

lemma stored_matches_user_token:
  "matches [(''client_id'', Eq (Str cid)), (''enterprise_id'', Eq (ostr e)),
            (''team_id'', Eq (team_filter t ie)), (''user_id'', Eq (Str u)),
            (''bot_token'', Ne Null)] (stored_installation cid i)
   = ((in_scope e t ie i \<and> user_id i = Some u) \<and> bot_token i \<noteq> None)"
  by (auto simp: matches_def stored_installation_def installation_document_def bot_document_def
      field_eq_def team_filter_scope in_scope_def)

lemma project_stored:
  "project [''_id'', ''client_id''] (stored_installation cid i) = installation_document i"
  by (simp add: project_def stored_installation_def installation_document_def bot_document_def)

lemma sort_key_stored: "sort_key ''installed_at'' (stored_installation cid i) = Some (installed_at i)"
  by (simp add: sort_key_def stored_installation_def installation_document_def bot_document_def)

lemma find_one_stored:
  assumes D: "docs c = map (stored_installation cid) insts"
    and P: "\<And>i. matches q (stored_installation cid i) = P i"
  shows "filter P insts = [] \<Longrightarrow>
           find_one q [''_id'', ''client_id''] ''installed_at'' c = None"
    and "filter P insts \<noteq> [] \<Longrightarrow>
           \<exists>i \<in> set (filter P insts). (\<forall>j \<in> set (filter P insts). installed_at j \<le> installed_at i)
             \<and> find_one q [''_id'', ''client_id''] ''installed_at'' c = Some (installation_document i)"
proof -
  have F: "filter (matches q) (docs c) = map (stored_installation cid) (filter P insts)"
    by (simp add: D filter_map o_def P)
  show "find_one q [''_id'', ''client_id''] ''installed_at'' c = None" if "filter P insts = []"
    using that by (simp add: find_one_def F)
  show "\<exists>i \<in> set (filter P insts). (\<forall>j \<in> set (filter P insts). installed_at j \<le> installed_at i)
             \<and> find_one q [''_id'', ''client_id''] ''installed_at'' c = Some (installation_document i)"
    if ne: "filter P insts \<noteq> []"
  proof -
    let ?xs = "map (stored_installation cid) (filter P insts)"
    from ne obtain d where d: "pick_desc ''installed_at'' ?xs = Some d"
      by (cases "pick_desc ''installed_at'' ?xs") simp_all
    from pick_desc_mem [OF d] obtain i where i: "i \<in> set (filter P insts)" "d = stored_installation cid i"
      by auto
    have "installed_at j \<le> installed_at i" if "j \<in> set (filter P insts)" for j
    proof -
      from that have "stored_installation cid j \<in> set ?xs" by simp
      from pick_desc_max [OF d this] show ?thesis by (simp add: i(2) sort_key_stored)
    qed
    moreover have "find_one q [''_id'', ''client_id''] ''installed_at'' c = Some (installation_document i)"
      by (simp add: find_one_def F d i(2) project_stored)
    ultimately show ?thesis using i(1) by blast
  qed
qed

lemma save_docs:
  "docs (slack_installations_collection (save self i))
     = docs (slack_installations_collection self) @ [stored_installation (client_id self) i]"
  "client_id (save self i) = client_id self"
  by (simp_all add: save_def save_bot_def insert_one_def stored_installation_def)

lemma foldl_save_docs:
  "docs (slack_installations_collection (foldl save self insts))
     = docs (slack_installations_collection self) @ map (stored_installation (client_id self)) insts
   \<and> client_id (foldl save self insts) = client_id self"
  by (induction insts arbitrary: self) (simp_all add: save_docs)

lemma find_installation_no_user:
  "find_installation self e t None ie =
     Inr (find_one [(''client_id'', Eq (Str (client_id self))), (''enterprise_id'', Eq (ostr e)),
                    (''team_id'', Eq (team_filter t ie))] [''_id'', ''client_id''] ''installed_at''
            (slack_installations_collection self))"
  by (simp add: find_installation_def Let_def split: option.splits)

lemma find_installation_user:
  "find_installation self e t (Some u) ie =
     (case find_one [(''client_id'', Eq (Str (client_id self))), (''enterprise_id'', Eq (ostr e)),
                      (''team_id'', Eq (team_filter t ie)), (''user_id'', Eq (Str u))]
             [''_id'', ''client_id''] ''installed_at'' (slack_installations_collection self) of
        None \<Rightarrow> Inr None
      | Some d \<Rightarrow>
          (case find_one [(''client_id'', Eq (Str (client_id self))), (''enterprise_id'', Eq (ostr e)),
                      (''team_id'', Eq (team_filter t ie)), (''user_id'', Eq (Str u)),
                      (''bot_token'', Ne Null)]
                  [''_id'', ''client_id''] ''installed_at'' (slack_installations_collection self) of
             None \<Rightarrow> Inr (Some d)
           | Some b \<Rightarrow>
               (case getitems b bot_credential_fields of
                  Inl err \<Rightarrow> Inl err
                | Inr other \<Rightarrow> Inr (Some (dict_update d other)))))"
  by (simp add: find_installation_def Let_def split: option.splits)

lemma merge_documents:
  "(case getitems (installation_document b) bot_credential_fields of
      Inl err \<Rightarrow> Inl err
    | Inr other \<Rightarrow> Inr (Some (dict_update (installation_document i) other)))
   = Inr (Some (installation_document (with_bot_credentials i b)))"
  by (simp add: bot_credential_fields_def installation_document_def bot_document_def
      dict_update_def with_bot_credentials_def)

lemma strict_last_greatest:
  assumes s: "sorted_wrt (\<lambda>a b. f a < (f b :: real)) ms" and ne: "ms \<noteq> []"
    and i: "i \<in> set ms" and m: "\<forall>j \<in> set ms. f j \<le> f i"
  shows "i = last ms"
proof (rule ccontr)
  assume n: "i \<noteq> last ms"
  from ne have ms: "ms = butlast ms @ [last ms]" by simp
  with i n have "i \<in> set (butlast ms)"
    by (metis Un_iff empty_iff insert_iff list.set(1) list.set(2) set_append)
  moreover from s ms have "\<forall>x \<in> set (butlast ms). f x < f (last ms)"
    by (metis sorted_wrt_append list.set_intros(1))
  ultimately have "f i < f (last ms)" by blast
  moreover from ne m have "f (last ms) \<le> f i" by simp
  ultimately show False by simp
qed

lemma U_store_docs:
  "docs (slack_installations_collection (save (save (save fresh_store U0) U1) U2))
     = map (stored_installation (client_id (save (save (save fresh_store U0) U1) U2))) [U0, U1, U2]"
  by (simp add: save_docs fresh_store_def new_installation_store_def empty_collection_def)


section \<open>The installation store: the latest installation\<close>

text \<open>
  C7. After any sequence of \<open>save\<close> calls on a store whose installations collection was
  empty, \<open>find_installation\<close> without a user returns nothing when no saved installation
  is in the scope, and otherwise an installation in the scope whose \<open>installed_at\<close> is
  greatest among those in the scope, whatever the order of the calls. When the calls
  come with strictly increasing \<open>installed_at\<close>, that is the last saved installation in
  the scope.
\<close>

theorem find_installation_latest:
  assumes empty: "docs (slack_installations_collection self) = []"
  shows "(filter (in_scope e t ie) insts = [] \<longrightarrow>
            find_installation (foldl save self insts) e t None ie = Inr None)
       \<and> (filter (in_scope e t ie) insts \<noteq> [] \<longrightarrow>
            (\<exists>i \<in> set (filter (in_scope e t ie) insts).
               (\<forall>j \<in> set (filter (in_scope e t ie) insts). installed_at j \<le> installed_at i)
               \<and> find_installation (foldl save self insts) e t None ie
                   = Inr (Some (installation_document i))))
       \<and> (filter (in_scope e t ie) insts \<noteq> []
            \<and> sorted_wrt (\<lambda>a b. installed_at a < installed_at b) insts \<longrightarrow>
            find_installation (foldl save self insts) e t None ie
              = Inr (Some (installation_document (last (filter (in_scope e t ie) insts)))))"
proof -
  let ?st = "foldl save self insts"
  let ?ms = "filter (in_scope e t ie) insts"
  let ?q = "[(''client_id'', Eq (Str (client_id ?st))), (''enterprise_id'', Eq (ostr e)),
             (''team_id'', Eq (team_filter t ie))]"
  have D: "docs (slack_installations_collection ?st) = map (stored_installation (client_id ?st)) insts"
    using foldl_save_docs [of self insts] empty by simp
  have P: "matches ?q (stored_installation (client_id ?st) i) = in_scope e t ie i" for i
    by (rule stored_matches_scope)
  note fo = find_one_stored [OF D P]
  have a: "find_installation ?st e t None ie = Inr None" if "?ms = []"
    using fo(1) [OF that] by (simp add: find_installation_no_user)
  have b: "\<exists>i \<in> set ?ms. (\<forall>j \<in> set ?ms. installed_at j \<le> installed_at i)
             \<and> find_installation ?st e t None ie = Inr (Some (installation_document i))"
    if "?ms \<noteq> []"
    using fo(2) [OF that] by (simp add: find_installation_no_user)
  have c: "find_installation ?st e t None ie = Inr (Some (installation_document (last ?ms)))"
    if ne: "?ms \<noteq> []" and s: "sorted_wrt (\<lambda>a b. installed_at a < installed_at b) insts"
  proof -
    from b [OF ne] obtain i where i: "i \<in> set ?ms" "\<forall>j \<in> set ?ms. installed_at j \<le> installed_at i"
      "find_installation ?st e t None ie = Inr (Some (installation_document i))"
      by blast
    from s have "sorted_wrt (\<lambda>a b. installed_at a < installed_at b) ?ms"
      by (rule sorted_wrt_filter)
    from strict_last_greatest [OF this ne i(1) i(2)] i(3) show ?thesis by simp
  qed
  from a b c show ?thesis by blast
qed

theorem find_installation_latest_witness:
  "find_installation (foldl save fresh_store [U1, U2]) (Some ''E1'') (Some ''T1'') None None
     = Inr (Some (installation_document U2))"
proof -
  have e: "docs (slack_installations_collection fresh_store) = []"
    by (simp add: fresh_store_def new_installation_store_def empty_collection_def)
  have f: "filter (in_scope (Some ''E1'') (Some ''T1'') None) [U1, U2] = [U1, U2]"
    by (simp add: in_scope_def scope_team_def U1_def U2_def truthy_def)
  have s: "sorted_wrt (\<lambda>a b. installed_at a < installed_at b) [U1, U2]"
    by (simp add: U1_def U2_def)
  from find_installation_latest [OF e, of "Some ''E1''" "Some ''T1''" None "[U1, U2]", unfolded f] s
  show ?thesis by simp
qed


section \<open>The installation store: merging bot credentials\<close>

text \<open>
  C1 (as amended). On a store whose installation records are those \<open>save\<close> wrote for
  \<open>insts\<close>, when some installation of user \<open>u\<close> is in the scope, \<open>find_installation\<close> with
  \<open>u\<close> returns a latest such installation \<open>i\<close>; its six bot-credential fields are
  those of a latest installation of the same user \<open>u\<close> in the scope with a non-null
  \<open>bot_token\<close>, when there is one, and its own otherwise.
\<close>

theorem find_installation_merges_same_user:
  assumes D: "docs (slack_installations_collection self)
                = map (stored_installation (client_id self)) insts"
    and us: "us = filter (\<lambda>i. in_scope e t ie i \<and> user_id i = Some u) insts"
    and ne: "us \<noteq> []"
  shows "\<exists>i \<in> set us. (\<forall>j \<in> set us. installed_at j \<le> installed_at i)
         \<and> (if \<exists>b \<in> set us. bot_token b \<noteq> None
            then \<exists>b \<in> set us. bot_token b \<noteq> None
                   \<and> (\<forall>c \<in> set us. bot_token c \<noteq> None \<longrightarrow> installed_at c \<le> installed_at b)
                   \<and> find_installation self e t (Some u) ie
                       = Inr (Some (installation_document (with_bot_credentials i b)))
            else find_installation self e t (Some u) ie = Inr (Some (installation_document i)))"
proof -
  let ?c = "slack_installations_collection self"
  let ?bs = "filter (\<lambda>i. bot_token i \<noteq> None) us"
  have bs: "filter (\<lambda>i. (in_scope e t ie i \<and> user_id i = Some u) \<and> bot_token i \<noteq> None) insts = ?bs"
    by (simp add: us)
  note f1 = find_one_stored(2) [OF D stored_matches_user, of e t ie u, folded us, OF ne]
  note f2 = find_one_stored [OF D stored_matches_user_token, of e t ie u, unfolded bs]
  from f1 obtain i where i: "i \<in> set us" "\<forall>j \<in> set us. installed_at j \<le> installed_at i"
    and fi: "find_one [(''client_id'', Eq (Str (client_id self))), (''enterprise_id'', Eq (ostr e)),
                      (''team_id'', Eq (team_filter t ie)), (''user_id'', Eq (Str u))]
             [''_id'', ''client_id''] ''installed_at'' ?c = Some (installation_document i)"
    by blast
  show ?thesis
  proof (cases "?bs = []")
    case True
    then have no: "\<not> (\<exists>b \<in> set us. bot_token b \<noteq> None)"
      by (simp add: filter_empty_conv)
    from f2(1) [OF True] fi
    have "find_installation self e t (Some u) ie = Inr (Some (installation_document i))"
      by (simp add: find_installation_user)
    with no i show ?thesis by auto
  next
    case False
    then have yes: "\<exists>b \<in> set us. bot_token b \<noteq> None"
      by (simp add: filter_empty_conv)
    from f2(2) [OF False] obtain b where b: "b \<in> set ?bs"
      "\<forall>c \<in> set ?bs. installed_at c \<le> installed_at b"
      and fb: "find_one [(''client_id'', Eq (Str (client_id self))), (''enterprise_id'', Eq (ostr e)),
                      (''team_id'', Eq (team_filter t ie)), (''user_id'', Eq (Str u)),
                      (''bot_token'', Ne Null)]
                  [''_id'', ''client_id''] ''installed_at'' ?c = Some (installation_document b)"
      by blast
    have "find_installation self e t (Some u) ie
            = Inr (Some (installation_document (with_bot_credentials i b)))"
      by (simp only: find_installation_user fi fb option.case merge_documents)
    with b have "\<exists>b \<in> set us. bot_token b \<noteq> None
                   \<and> (\<forall>c \<in> set us. bot_token c \<noteq> None \<longrightarrow> installed_at c \<le> installed_at b)
                   \<and> find_installation self e t (Some u) ie
                       = Inr (Some (installation_document (with_bot_credentials i b)))"
      by auto
    with yes i show ?thesis by auto
  qed
qed

theorem find_installation_merges_same_user_witness:
  "find_installation (save (save (save fresh_store U0) U1) U2) (Some ''E1'') (Some ''T1'')
     (Some ''u1'') None
   = Inr (Some (installation_document (with_bot_credentials U1 U0)))"
proof -
  let ?st = "save (save (save fresh_store U0) U1) U2"
  have us: "[U0, U1] = filter (\<lambda>i. in_scope (Some ''E1'') (Some ''T1'') None i \<and> user_id i = Some ''u1'')
                 [U0, U1, U2]"
    by (simp add: in_scope_def scope_team_def U0_def U1_def U2_def truthy_def)
  have ne: "[U0, U1] \<noteq> []" by simp
  from find_installation_merges_same_user [OF U_store_docs us ne]
  show ?thesis
    by (simp add: U0_def U1_def)
qed

text \<open>
  C1 as stated fails on its own example: with \<open>U1\<close> and \<open>U2\<close> saved, the lookup for user
  \<open>u1\<close> returns \<open>U1\<close> unchanged, with a null \<open>bot_token\<close>; the second query keeps the
  \<open>user_id\<close> filter, so \<open>U2\<close> is not seen.
\<close>

theorem merge_ignores_other_users:
  "find_installation (save (save fresh_store U1) U2) (Some ''E1'') (Some ''T1'') (Some ''u1'') None
     = Inr (Some (installation_document U1))
   \<and> map_of (installation_document U1) ''user_id'' = Some (Str ''u1'')
   \<and> map_of (installation_document U1) ''bot_token'' = Some Null
   \<and> map_of (installation_document U1) ''bot_token'' \<noteq> Some (Str ''xoxb-2'')"
  by (simp add: fresh_store_def new_installation_store_def empty_collection_def U1_def U2_def
      save_def save_bot_def insert_one_def find_installation_def find_one_def matches_def
      field_eq_def team_filter_def truthy_def ostr_def ostrs_def oint_def to_bot_def
      installation_document_def bot_document_def sort_key_def project_def)


section \<open>The installation store: the scope rule\<close>

lemma find_one_team:
  assumes f: "find_one q [''_id'', ''client_id''] ''installed_at'' c = Some r"
    and q: "(''team_id'', Eq (team_filter t ie)) \<in> set q"
  shows "field_is (scope_team t ie) (map_of r ''team_id'')"
proof -
  from find_one_Some [OF f] obtain d where d: "matches q d" "r = project [''_id'', ''client_id''] d"
    by blast
  from matches_holds [OF d(1) q] have "field_is (scope_team t ie) (map_of d ''team_id'')"
    by (simp add: team_filter_scope field_eq_ostr)
  then show ?thesis by (simp add: d(2) map_of_project)
qed

lemma find_bot_team:
  "find_bot self e t ie = Some r \<Longrightarrow> field_is (scope_team t ie) (map_of r ''team_id'')"
  unfolding find_bot_def by (erule find_one_team) simp

lemma find_installation_team:
  assumes "find_installation self e t u ie = Inr (Some r)"
  shows "field_is (scope_team t ie) (map_of r ''team_id'')"
proof (cases u)
  case None
  with assms show ?thesis
    by (auto simp: find_installation_no_user elim!: find_one_team)
next
  case (Some x)
  let ?q = "[(''client_id'', Eq (Str (client_id self))), (''enterprise_id'', Eq (ostr e)),
             (''team_id'', Eq (team_filter t ie)), (''user_id'', Eq (Str x))]"
  let ?c = "slack_installations_collection self"
  from assms Some obtain d where d: "find_one ?q [''_id'', ''client_id''] ''installed_at'' ?c = Some d"
    by (auto simp: find_installation_user split: option.splits)
  have dt: "field_is (scope_team t ie) (map_of d ''team_id'')"
    by (rule find_one_team [OF d]) simp
  show ?thesis
  proof (cases "find_one (?q @ [(''bot_token'', Ne Null)]) [''_id'', ''client_id''] ''installed_at'' ?c")
    case None
    with assms Some d have "r = d" by (simp add: find_installation_user)
    with dt show ?thesis by simp
  next
    case (Some b)
    with assms \<open>u = Some x\<close> d obtain other where o: "getitems b bot_credential_fields = Inr other"
      and r: "r = dict_update d other"
      by (auto simp: find_installation_user split: sum.splits)
    from getitems_update [OF o, of d "''team_id''"] dt show ?thesis
      by (simp add: r bot_credential_fields_def)
  qed
qed

text \<open>
  C6. For every store state, a record returned by \<open>find_bot\<close> or \<open>find_installation\<close> has
  an absent \<open>team_id\<close> when \<open>isEnterpriseInstall\<close> is true or \<open>teamId\<close> is absent, and
  exactly the given \<open>teamId\<close> otherwise. So with \<open>isEnterpriseInstall\<close> true, an
  installation with a \<open>team_id\<close> is never returned, nor its bot, whatever \<open>teamId\<close> is
  passed.
\<close>

theorem enterprise_scope_rule:
  "(find_bot self e t ie = Some r \<longrightarrow> field_is (scope_team t ie) (map_of r ''team_id''))
   \<and> (find_installation self e t u ie = Inr (Some r') \<longrightarrow>
        field_is (scope_team t ie) (map_of r' ''team_id''))
   \<and> (truthy ie \<and> team_id i \<noteq> None \<longrightarrow>
        find_installation self e t u ie \<noteq> Inr (Some (installation_document i))
        \<and> find_bot self e t ie \<noteq> Some (bot_document (to_bot i)))"
proof -
  have "False" if ie: "truthy ie" and ti: "team_id i \<noteq> None"
    and f: "find_installation self e t u ie = Inr (Some (installation_document i))"
  proof -
    from find_installation_team [OF f] ie ti show False
      by (auto simp: scope_team_def field_is_def absent_def installation_document_def
          bot_document_def)
  qed
  moreover have "False" if ie: "truthy ie" and ti: "team_id i \<noteq> None"
    and f: "find_bot self e t ie = Some (bot_document (to_bot i))"
  proof -
    from find_bot_team [OF f] ie ti show False
      by (auto simp: scope_team_def field_is_def absent_def bot_document_def to_bot_def)
  qed
  ultimately show ?thesis
    using find_bot_team find_installation_team by blast
qed

theorem enterprise_scope_rule_witness:
  "find_bot (save (save fresh_store U2) ORG) (Some ''E1'') (Some ''T1'') (Some True)
     = Some (bot_document (to_bot ORG))
   \<and> field_is (scope_team (Some ''T1'') (Some True))
        (map_of (bot_document (to_bot ORG)) ''team_id'')
   \<and> find_installation (save (save fresh_store U2) ORG) (Some ''E1'') (Some ''T1'') None (Some True)
     = Inr (Some (installation_document ORG))
   \<and> field_is (scope_team (Some ''T1'') (Some True))
        (map_of (installation_document ORG) ''team_id'')
   \<and> find_installation (save (save fresh_store U2) ORG) (Some ''E1'') (Some ''T1'') None (Some True)
       \<noteq> Inr (Some (installation_document U2))
   \<and> find_bot (save (save fresh_store U2) ORG) (Some ''E1'') (Some ''T1'') (Some True)
       \<noteq> Some (bot_document (to_bot U2))"
proof -
  let ?st = "save (save fresh_store U2) ORG"
  have b: "find_bot ?st (Some ''E1'') (Some ''T1'') (Some True) = Some (bot_document (to_bot ORG))"
    by (simp add: fresh_store_def new_installation_store_def empty_collection_def U2_def ORG_def
      save_def save_bot_def insert_one_def find_bot_def find_one_def matches_def
      field_eq_def team_filter_def truthy_def ostr_def ostrs_def oint_def to_bot_def
      bot_document_def sort_key_def project_def)
  have i: "find_installation ?st (Some ''E1'') (Some ''T1'') None (Some True)
             = Inr (Some (installation_document ORG))"
    by (simp add: fresh_store_def new_installation_store_def empty_collection_def U2_def ORG_def
      save_def save_bot_def insert_one_def find_installation_def find_one_def matches_def
      field_eq_def team_filter_def truthy_def ostr_def ostrs_def oint_def to_bot_def
      installation_document_def bot_document_def sort_key_def project_def)
  have h: "truthy (Some True) \<and> team_id U2 \<noteq> None" by (simp add: truthy_def U2_def)
  from b i h
    enterprise_scope_rule [of ?st "Some ''E1''" "Some ''T1''" "Some True"
      "bot_document (to_bot ORG)" None "installation_document ORG" U2]
  show ?thesis by simp
qed


section \<open>The installation store: deletion\<close>

lemma matches_bot_scope:
  "matches [(''client_id'', Eq (Str cid)), (''enterprise_id'', Eq (ostr e)),
            (''team_id'', Eq (ostr t))] d = bot_scope_literal cid e t d"
  by (simp add: matches_def bot_scope_literal_def field_eq_ostr field_eq_Str)

text \<open>
  C8. \<open>delete_bot\<close> leaves the installations collection, the client id and the indexes
  as they are, and keeps, in order, exactly the records of the bots collection that do
  not have the store's client id and literally the given \<open>enterprise_id\<close> and \<open>team_id\<close>
  (an absent argument matching only an absent field). With a \<open>teamId\<close> given, every
  record whose \<open>team_id\<close> is absent stays.
\<close>

theorem delete_bot_literal:
  "slack_installations_collection (delete_bot self e t) = slack_installations_collection self
   \<and> client_id (delete_bot self e t) = client_id self
   \<and> indexes (slack_bots_collection (delete_bot self e t)) = indexes (slack_bots_collection self)
   \<and> docs (slack_bots_collection (delete_bot self e t))
       = filter (\<lambda>d. \<not> bot_scope_literal (client_id self) e t d) (docs (slack_bots_collection self))
   \<and> (t \<noteq> None \<longrightarrow>
        (\<forall>d \<in> set (docs (slack_bots_collection self)).
           absent (map_of d ''team_id'') \<longrightarrow> d \<in> set (docs (slack_bots_collection (delete_bot self e t)))))"
proof -
  have m: "matches [(''client_id'', Eq (Str (client_id self))), (''enterprise_id'', Eq (ostr e)),
            (''team_id'', Eq (ostr t))] = bot_scope_literal (client_id self) e t"
    by (rule ext) (rule matches_bot_scope)
  have d: "docs (slack_bots_collection (delete_bot self e t))
       = filter (\<lambda>d. \<not> bot_scope_literal (client_id self) e t d) (docs (slack_bots_collection self))"
    by (simp add: delete_bot_def delete_many_def m)
  have "\<not> bot_scope_literal (client_id self) e t x" if "t \<noteq> None" "absent (map_of x ''team_id'')" for x
    using that by (auto simp: bot_scope_literal_def field_is_def absent_def)
  with d show ?thesis
    by (simp add: delete_bot_def delete_many_def)
qed

theorem delete_bot_literal_witness:
  "docs (slack_bots_collection (delete_bot (save_bot (save fresh_store ORG) B1) (Some ''E1'') (Some ''T1'')))
     = [(''client_id'', Str ''client'') # bot_document (to_bot ORG)]
   \<and> (''client_id'', Str ''client'') # bot_document (to_bot ORG)
       \<in> set (docs (slack_bots_collection
                (delete_bot (save_bot (save fresh_store ORG) B1) (Some ''E1'') (Some ''T1''))))"
proof -
  let ?st = "save_bot (save fresh_store ORG) B1"
  let ?d = "(''client_id'', Str ''client'') # bot_document (to_bot ORG)"
  have t: "Some ''T1'' \<noteq> (None :: string option)" by simp
  have m: "?d \<in> set (docs (slack_bots_collection ?st))"
    by (simp add: fresh_store_def new_installation_store_def empty_collection_def save_def
        save_bot_def insert_one_def)
  have a: "absent (map_of ?d ''team_id'')"
    by (simp add: absent_def bot_document_def to_bot_def ORG_def ostr_def)
  have ds: "docs (slack_bots_collection ?st) = [?d, (''client_id'', Str ''client'') # bot_document B1]"
    by (simp add: fresh_store_def new_installation_store_def empty_collection_def save_def
        save_bot_def insert_one_def)
  have cid: "client_id ?st = ''client''"
    by (simp add: fresh_store_def new_installation_store_def save_def save_bot_def)
  have n1: "\<not> bot_scope_literal ''client'' (Some ''E1'') (Some ''T1'') ?d"
    by (simp add: bot_scope_literal_def field_is_def bot_document_def to_bot_def ORG_def ostr_def)
  have n2: "bot_scope_literal ''client'' (Some ''E1'') (Some ''T1'')
              ((''client_id'', Str ''client'') # bot_document B1)"
    by (simp add: bot_scope_literal_def field_is_def bot_document_def B1_def ostr_def)
  from delete_bot_literal [of ?st "Some ''E1''" "Some ''T1''"] t m a
  show ?thesis by (simp add: ds cid n1 n2)
qed

lemma reachable_no_user_id:
  "reachable self \<Longrightarrow> \<forall>d \<in> set (docs (slack_bots_collection self)). map_of d ''user_id'' = None"
proof (induction rule: reachable.induct)
  case (r_new cid)
  then show ?case by (simp add: new_installation_store_def empty_collection_def)
next
  case (r_init self)
  then show ?case by (simp add: init_def)
next
  case (r_save self installation)
  then show ?case
    by (auto simp: save_def save_bot_def insert_one_def bot_document_def)
next
  case (r_save_bot self a_bot)
  then show ?case
    by (auto simp: save_bot_def insert_one_def bot_document_def)
next
  case (r_delete_bot self enterprise team)
  then show ?case by (simp add: delete_bot_def delete_many_def)
next
  case (r_delete_installation self enterprise team user)
  then show ?case by (simp add: delete_installation_def delete_many_def)
qed

text \<open>
  C10. On every store reached from empty collections through the store's own
  operations, \<open>delete_installation\<close> with a user id changes nothing: its delete goes to
  the bots collection with a \<open>user_id\<close> filter, and no record there has a \<open>user_id\<close>.
  With or without a user id, on any store, the installations collection is untouched.
\<close>

theorem delete_installation_no_effect:
  "(reachable self \<longrightarrow> delete_installation self e t (Some u) = self)
   \<and> slack_installations_collection (delete_installation self e t u')
       = slack_installations_collection self"
proof -
  have "delete_installation self e t (Some u) = self" if "reachable self"
  proof -
    let ?q = "[(''client_id'', Eq (Str (client_id self))), (''enterprise_id'', Eq (ostr e)),
               (''team_id'', Eq (ostr t)), (''user_id'', Eq (Str u))]"
    from reachable_no_user_id [OF that]
    have "\<forall>d \<in> set (docs (slack_bots_collection self)). \<not> matches ?q d"
      by (simp add: matches_def field_eq_def)
    then have "filter (\<lambda>d. \<not> matches ?q d) (docs (slack_bots_collection self))
                 = docs (slack_bots_collection self)"
      by (simp add: filter_id_conv)
    then show ?thesis
      by (simp add: delete_installation_def delete_many_def)
  qed
  then show ?thesis by (simp add: delete_installation_def)
qed

theorem delete_installation_no_effect_witness:
  "delete_installation (save fresh_store U1) (Some ''E1'') (Some ''T1'') (Some ''u1'')
     = save fresh_store U1"
proof -
  have "reachable (save fresh_store U1)"
    unfolding fresh_store_def by (rule r_save) (rule r_new)
  with delete_installation_no_effect [of "save fresh_store U1" "Some ''E1''" "Some ''T1''" "''u1''"]
  show ?thesis by simp
qed


section \<open>The installation store: indexes\<close>

text \<open>
  C3 (as amended). After \<open>init\<close> the installations collection has both an index on
  (\<open>client_id\<close>, \<open>enterprise_id\<close>, \<open>team_id\<close>, \<open>user_id\<close>, \<open>installed_at\<close>) and one on
  (\<open>client_id\<close>, \<open>enterprise_id\<close>, \<open>team_id\<close>, \<open>installed_at\<close>); the bots collection is as
  before; a second \<open>init\<close> changes nothing.
\<close>

theorem init_indexes:
  "user_lookup_index \<in> set (indexes (slack_installations_collection (init self)))
   \<and> scope_lookup_index \<in> set (indexes (slack_installations_collection (init self)))
   \<and> slack_bots_collection (init self) = slack_bots_collection self
   \<and> init (init self) = init self"
  by (simp add: init_def create_index_def user_lookup_index_def scope_lookup_index_def)

text \<open>
  C3 as stated fails: after \<open>init\<close> on a fresh store the bots collection has no index
  on (\<open>client_id\<close>, \<open>enterprise_id\<close>, \<open>team_id\<close>, \<open>installed_at\<close>).
\<close>

theorem init_no_bots_index:
  "scope_lookup_index \<notin> set (indexes (slack_bots_collection (init fresh_store)))"
  by (simp add: init_def fresh_store_def new_installation_store_def empty_collection_def)


section \<open>The installation store: the asynchronous entry points\<close>

text \<open>
  C2. The claim does not hold of the code: on a store holding \<open>U2\<close>, \<open>find_bot\<close> and
  \<open>find_installation\<close> return the saved records, while \<open>async_find_bot\<close>,
  \<open>async_find_installation\<close>, \<open>async_delete_bot\<close> and \<open>async_delete_installation\<close> raise
  \<open>TypeError\<close>: each passes \<open>enterprise_id\<close> and \<open>team_id\<close> by position to a method that
  takes keyword arguments only.
\<close>

theorem async_wrappers_raise:
  "find_bot (save fresh_store U2) (Some ''E1'') (Some ''T1'') None = Some (bot_document (to_bot U2))
   \<and> async_find_bot (save fresh_store U2) (Some ''E1'') (Some ''T1'') None = Inl TypeError
   \<and> find_installation (save fresh_store U2) (Some ''E1'') (Some ''T1'') None None
       = Inr (Some (installation_document U2))
   \<and> async_find_installation (save fresh_store U2) (Some ''E1'') (Some ''T1'') None None
       = Inl TypeError
   \<and> async_delete_bot (save fresh_store U2) (Some ''E1'') (Some ''T1'') = Inl TypeError
   \<and> async_delete_installation (save fresh_store U2) (Some ''E1'') (Some ''T1'') None
       = Inl TypeError"
  by (simp add: async_find_bot_def async_find_installation_def async_delete_bot_def
      async_delete_installation_def bind_keyword_only_def
      fresh_store_def new_installation_store_def empty_collection_def U2_def
      save_def save_bot_def insert_one_def find_bot_def find_installation_def find_one_def
      matches_def field_eq_def team_filter_def truthy_def ostr_def ostrs_def oint_def to_bot_def
      installation_document_def bot_document_def sort_key_def project_def)

end
